theory Spec2Isabelle
  imports Main "HOL-Library.Multiset"
begin

section \<open>Simple Notes App: the note-management logic of \<^verbatim>\<open>notes_frontend/src/main.js\<close>\<close>

text \<open>
  The application keeps one mutable \<^verbatim>\<open>state\<close> object and mirrors part of it in the
  browser's \<^verbatim>\<open>localStorage\<close>. The embedding passes both explicitly: a handler takes
  the world (state and storage) and returns the new one. What the handlers read from
  the environment (\<^verbatim>\<open>Date.now()\<close>, \<^verbatim>\<open>Math.random()\<close>, the answer to \<^verbatim>\<open>confirm\<close>,
  the value of an input field) is an argument of the handler.

  Strings are lists of 8-bit code units, read as the code units U+0000 to U+00FF of
  JavaScript's strings. Timestamps are integers (milliseconds since the epoch), as
  \<^verbatim>\<open>Date.now()\<close> returns them.
\<close>

subsection \<open>Data model\<close>

text \<open>The \<^verbatim>\<open>Note\<close> typedef of the source. The field \<^verbatim>\<open>id\<close> is called \<open>id_n\<close> here.\<close>

record Note =
  id_n :: string
  title :: string
  content :: string
  createdAt :: int
  updatedAt :: int

text \<open>The \<^verbatim>\<open>state\<close> object; \<^verbatim>\<open>selectedId\<close> is a string or \<^verbatim>\<open>null\<close>.\<close>

record app_state =
  "notes" :: "Note list"
  selectedId :: "string option"
  query :: string
  isEditingTitle :: bool

text \<open>\<^verbatim>\<open>localStorage\<close>: string keys to string values, \<^verbatim>\<open>getItem\<close> gives \<^verbatim>\<open>null\<close> on a missing key.\<close>

type_synonym storage = "string \<rightharpoonup> string"

record world =
  state :: app_state
  store :: storage

definition STORAGE_KEY :: string where
  "STORAGE_KEY = ''simple-notes-app__notes''"

definition SELECTED_KEY :: string where
  "SELECTED_KEY = ''simple-notes-app__selectedId''"

subsection \<open>The string and array methods the code calls\<close>

text \<open>
  \<^verbatim>\<open>String.prototype.toLowerCase\<close> on code units up to U+00FF: the capital letters are
  A to Z and U+00C0 to U+00DE without the multiplication sign U+00D7, and each has its
  small letter 32 places further.
\<close>

definition lower_unit :: "char \<Rightarrow> char" where
  "lower_unit c =
     (let k = (of_char c :: nat)
      in if (65 \<le> k \<and> k \<le> 90) \<or> (192 \<le> k \<and> k \<le> 222 \<and> k \<noteq> 215)
         then char_of (k + 32) else c)"

definition toLowerCase :: "string \<Rightarrow> string" where
  "toLowerCase s = map lower_unit s"

text \<open>
  \<^verbatim>\<open>String.prototype.trim\<close> removes white space and line terminators from both ends;
  up to U+00FF these are TAB, LF, VT, FF, CR, SP and NBSP.
\<close>

definition is_space :: "char \<Rightarrow> bool" where
  "is_space c = ((of_char c :: nat) \<in> {9, 10, 11, 12, 13, 32, 160})"

definition trim :: "string \<Rightarrow> string" where
  "trim s = rev (dropWhile is_space (rev (dropWhile is_space s)))"

text \<open>\<^verbatim>\<open>String.prototype.includes\<close>: does \<open>q\<close> occur in \<open>s\<close> at some position.\<close>

fun includes_str :: "string \<Rightarrow> string \<Rightarrow> bool" where
  "includes_str [] q = (q = [])"
| "includes_str (c # s) q = (take (length q) (c # s) = q \<or> includes_str s q)"

text \<open>
  \<^verbatim>\<open>Array.prototype.sort\<close> with a comparator. The language requires the sort to be
  stable, so for a consistent comparator the result is the one of a stable insertion
  sort: an element goes before the first one it does not compare greater than.
\<close>

fun insert_by :: "('a \<Rightarrow> 'a \<Rightarrow> int) \<Rightarrow> 'a \<Rightarrow> 'a list \<Rightarrow> 'a list" where
  "insert_by cmp x [] = [x]"
| "insert_by cmp x (y # ys) =
     (if cmp x y \<le> 0 then x # y # ys else y # insert_by cmp x ys)"

definition sort_by :: "('a \<Rightarrow> 'a \<Rightarrow> int) \<Rightarrow> 'a list \<Rightarrow> 'a list" where
  "sort_by cmp xs = foldr (insert_by cmp) xs []"

text \<open>\<^verbatim>\<open>Array.prototype.findIndex\<close>; the result \<^verbatim>\<open>-1\<close> of the source is \<open>None\<close>.\<close>

fun findIndex :: "('a \<Rightarrow> bool) \<Rightarrow> 'a list \<Rightarrow> nat option" where
  "findIndex P [] = None"
| "findIndex P (x # xs) = (if P x then Some 0 else map_option Suc (findIndex P xs))"

text \<open>
  \<^verbatim>\<open>xs.splice(start, count, ...items)\<close> for \<open>start \<le> length xs\<close>, as the array it
  leaves behind.
\<close>

definition splice_js :: "nat \<Rightarrow> nat \<Rightarrow> 'a list \<Rightarrow> 'a list \<Rightarrow> 'a list" where
  "splice_js start cnt items xs = take start xs @ items @ drop (start + cnt) xs"

subsection \<open>Filter/sort engine\<close>

text \<open>
  \<^verbatim>\<open>getFilteredNotes\<close>. An empty string is falsy, so \<^verbatim>\<open>!q\<close> is \<open>q = []\<close> and
  \<^verbatim>\<open>n.title && ...\<close> needs a non-empty title.
\<close>

definition getFilteredNotes :: "app_state \<Rightarrow> Note list" where
  "getFilteredNotes st =
     (let q = toLowerCase (trim (query st));
          ns = sort_by (\<lambda>a b. updatedAt b - updatedAt a) (notes st)
      in if q = [] then ns
         else filter (\<lambda>n.
                (title n \<noteq> [] \<and> includes_str (toLowerCase (title n)) q) \<or>
                (content n \<noteq> [] \<and> includes_str (toLowerCase (content n)) q)) ns)"

subsection \<open>Persistence adapter\<close>

text \<open>
  \<^verbatim>\<open>JSON.stringify\<close> and \<^verbatim>\<open>JSON.parse\<close> belong to the platform, not to the repository:
  they are a parameter \<open>J\<close> of everything that reaches the storage. A parse either
  throws or returns a value, of which the code only asks whether it is an array.
\<close>

datatype exn = SyntaxError

datatype 'a parsed = ParsedArray "'a list" | ParsedOther

record 'a json =
  stringify :: "'a list \<Rightarrow> string"
  parse :: "string \<Rightarrow> exn + 'a parsed"

text \<open>The empty text is not JSON: \<^verbatim>\<open>JSON.parse('')\<close> throws on every platform.\<close>

definition JSON_parse :: "'a json \<Rightarrow> string \<Rightarrow> exn + 'a parsed" where
  "JSON_parse J raw = (if raw = [] then Inl SyntaxError else parse J raw)"

definition JSON_stringify :: "'a json \<Rightarrow> 'a list \<Rightarrow> string" where
  "JSON_stringify J xs = stringify J xs"

text \<open>
  \<^verbatim>\<open>loadNotes\<close>: \<open>loadNotes_try\<close> is the body of the \<^verbatim>\<open>try\<close> block, in which an
  exception of \<^verbatim>\<open>JSON.parse\<close> propagates; \<open>loadNotes\<close> adds the \<^verbatim>\<open>catch\<close>. The
  result is a sum so that "raises" is a value: \<open>Inl\<close> would be an exception leaving
  the function.
\<close>

definition loadNotes_try :: "'a json \<Rightarrow> storage \<Rightarrow> exn + 'a list" where
  "loadNotes_try J s =
     (case s STORAGE_KEY of
        None \<Rightarrow> Inr []
      | Some raw \<Rightarrow>
          if raw = [] then Inr []
          else (case JSON_parse J raw of
                  Inl e \<Rightarrow> Inl e
                | Inr ParsedOther \<Rightarrow> Inr []
                | Inr (ParsedArray xs) \<Rightarrow> Inr xs))"

definition loadNotes :: "'a json \<Rightarrow> storage \<Rightarrow> exn + 'a list" where
  "loadNotes J s = (case loadNotes_try J s of Inl e \<Rightarrow> Inr [] | Inr xs \<Rightarrow> Inr xs)"

definition saveNotes :: "'a json \<Rightarrow> 'a list \<Rightarrow> storage \<Rightarrow> storage" where
  "saveNotes J ns s = s(STORAGE_KEY \<mapsto> JSON_stringify J ns)"

text \<open>\<^verbatim>\<open>getItem(...) || null\<close>: a missing and an empty value both give \<^verbatim>\<open>null\<close>.\<close>

definition loadSelectedId :: "storage \<Rightarrow> string option" where
  "loadSelectedId s =
     (case s SELECTED_KEY of None \<Rightarrow> None | Some v \<Rightarrow> if v = [] then None else Some v)"

text \<open>\<^verbatim>\<open>id || ''\<close>: \<^verbatim>\<open>null\<close> and the empty string are both stored as the empty string.\<close>

definition saveSelectedId :: "string option \<Rightarrow> storage \<Rightarrow> storage" where
  "saveSelectedId i s = s(SELECTED_KEY \<mapsto> (case i of None \<Rightarrow> [] | Some v \<Rightarrow> v))"

subsection \<open>Note factory\<close>

text \<open>\<^verbatim>\<open>Number.prototype.toString(36)\<close> on an integer.\<close>

definition digit36 :: "nat \<Rightarrow> char" where
  "digit36 d = ''0123456789abcdefghijklmnopqrstuvwxyz'' ! d"

fun nat_toString36 :: "nat \<Rightarrow> string" where
  "nat_toString36 n =
     (if n < 36 then [digit36 n] else nat_toString36 (n div 36) @ [digit36 (n mod 36)])"

declare nat_toString36.simps [simp del]

definition toString36 :: "int \<Rightarrow> string" where
  "toString36 i =
     (if i < 0 then CHR ''-'' # nat_toString36 (nat (- i)) else nat_toString36 (nat i))"

text \<open>\<^verbatim>\<open>s.slice(b, e)\<close> for \<open>0 \<le> b \<le> e\<close>.\<close>

definition slice_js :: "nat \<Rightarrow> nat \<Rightarrow> string \<Rightarrow> string" where
  "slice_js b e s = take (e - b) (drop b s)"

text \<open>
  \<^verbatim>\<open>generateId\<close>: \<open>now\<close> is what \<^verbatim>\<open>Date.now()\<close> returns at the call and \<open>r36\<close> is the text
  \<^verbatim>\<open>Math.random().toString(36)\<close>, such as \<^verbatim>\<open>0.4fzyo82mvyr\<close>.
\<close>

definition generateId :: "int \<Rightarrow> string \<Rightarrow> string" where
  "generateId now r36 = toString36 now @ ''-'' @ slice_js 2 8 r36"

text \<open>
  \<^verbatim>\<open>createNote\<close>: the argument is \<open>None\<close> when the caller passes none, and the default
  title applies. The function reads the clock itself (\<open>now\<close>) and \<^verbatim>\<open>generateId\<close>
  reads it again (\<open>idnow\<close>).
\<close>

definition createNote :: "string option \<Rightarrow> int \<Rightarrow> int \<Rightarrow> string \<Rightarrow> Note" where
  "createNote t now idnow r36 =
     \<lparr>id_n = generateId idnow r36,
      title = (case t of None \<Rightarrow> ''Untitled note'' | Some v \<Rightarrow> v),
      content = [],
      createdAt = now,
      updatedAt = now\<rparr>"

subsection \<open>Action handlers\<close>

text \<open>
  \<^verbatim>\<open>renderLayout\<close> assigns the markup of the page and binds the handlers again. It
  reads the state and writes neither the state nor the storage, so on the world it is
  the identity.
\<close>

definition renderLayout :: "world \<Rightarrow> world" where
  "renderLayout w = w"

definition handleAddNote :: "Note json \<Rightarrow> int \<Rightarrow> int \<Rightarrow> string \<Rightarrow> world \<Rightarrow> world" where
  "handleAddNote J now idnow r36 w =
     (let n = createNote None now idnow r36;
          ns = n # notes (state w);
          i = Some (id_n n)
      in renderLayout
           \<lparr>state = (state w)\<lparr>notes := ns, selectedId := i\<rparr>,
            store = saveSelectedId i (saveNotes J ns (store w))\<rparr>)"

definition selectNote :: "string option \<Rightarrow> world \<Rightarrow> world" where
  "selectNote i w =
     renderLayout \<lparr>state = (state w)\<lparr>selectedId := i\<rparr>, store = saveSelectedId i (store w)\<rparr>"

text \<open>The patch objects of the source carry a title, a content, or (for the spec) both.\<close>

record patch =
  p_title :: "string option"
  p_content :: "string option"

text \<open>\<^verbatim>\<open>{ ...note, ...patch, updatedAt: Date.now() }\<close>\<close>

definition merge_patch :: "Note \<Rightarrow> patch \<Rightarrow> int \<Rightarrow> Note" where
  "merge_patch n p now =
     n\<lparr>title := (case p_title p of None \<Rightarrow> title n | Some v \<Rightarrow> v),
       content := (case p_content p of None \<Rightarrow> content n | Some v \<Rightarrow> v),
       updatedAt := now\<rparr>"

text \<open>\<^verbatim>\<open>n.id === state.selectedId\<close>: never true when the selected id is \<^verbatim>\<open>null\<close>.\<close>

definition is_selected :: "app_state \<Rightarrow> Note \<Rightarrow> bool" where
  "is_selected st n = (selectedId st = Some (id_n n))"

definition updateSelectedNote :: "Note json \<Rightarrow> patch \<Rightarrow> int \<Rightarrow> world \<Rightarrow> world" where
  "updateSelectedNote J p now w =
     (case findIndex (is_selected (state w)) (notes (state w)) of
        None \<Rightarrow> w
      | Some idx \<Rightarrow>
          let updated = merge_patch (notes (state w) ! idx) p now;
              ns = splice_js idx 1 [updated] (notes (state w))
          in renderLayout \<lparr>state = (state w)\<lparr>notes := ns\<rparr>, store = saveNotes J ns (store w)\<rparr>)"

text \<open>
  \<^verbatim>\<open>handleDelete\<close>: \<open>confirm\<close> maps the text of the prompt to the user's answer;
  \<open>CHR 0x22\<close> is the double quote around the title.
\<close>

definition handleDelete :: "Note json \<Rightarrow> (string \<Rightarrow> bool) \<Rightarrow> world \<Rightarrow> world" where
  "handleDelete J confirm w =
     (case findIndex (is_selected (state w)) (notes (state w)) of
        None \<Rightarrow> w
      | Some idx \<Rightarrow>
          let t = title (notes (state w) ! idx);
              label = (if t = [] then ''this note'' else t);
              ok = confirm (''Delete '' @ [CHR 0x22] @ label @ [CHR 0x22] @ ''? This cannot be undone.'')
          in if \<not> ok then w
             else
               let ns = splice_js idx 1 [] (notes (state w));
                   s1 = saveNotes J ns (store w);
                   i = (case ns of [] \<Rightarrow> None | n # _ \<Rightarrow> Some (id_n n))
               in renderLayout
                    \<lparr>state = (state w)\<lparr>notes := ns, selectedId := i\<rparr>,
                     store = saveSelectedId i s1\<rparr>)"

text \<open>The listener of the search field: \<^verbatim>\<open>state.query = e.target.value; renderLayout()\<close>.\<close>

definition searchInput :: "string \<Rightarrow> world \<Rightarrow> world" where
  "searchInput v w = renderLayout (w\<lparr>state := (state w)\<lparr>query := v\<rparr>\<rparr>)"

subsection \<open>Module initialisation\<close>

text \<open>\<^verbatim>\<open>!state.selectedId\<close>: \<^verbatim>\<open>null\<close> and the empty string are falsy.\<close>

definition falsy :: "string option \<Rightarrow> bool" where
  "falsy i = (case i of None \<Rightarrow> True | Some v \<Rightarrow> v = [])"

text \<open>
  The top-level statements of the module: build \<^verbatim>\<open>state\<close> from the storage, select the
  first note if none is selected, render.
\<close>

definition startup :: "Note json \<Rightarrow> storage \<Rightarrow> exn + world" where
  "startup J s =
     (case loadNotes J s of
        Inl e \<Rightarrow> Inl e
      | Inr ns \<Rightarrow>
          let st = \<lparr>notes = ns, selectedId = loadSelectedId s, query = [],
                    isEditingTitle = False\<rparr>
          in Inr (renderLayout
               (case ns of
                  n # _ \<Rightarrow>
                    if falsy (selectedId st)
                    then \<lparr>state = st\<lparr>selectedId := Some (id_n n)\<rparr>,
                          store = saveSelectedId (Some (id_n n)) s\<rparr>
                    else \<lparr>state = st, store = s\<rparr>
                | [] \<Rightarrow> \<lparr>state = st, store = s\<rparr>)))"

subsection \<open>Sequences of actions\<close>

text \<open>A user action with what the handler reads from the environment.\<close>

datatype action =
    Add int int string
  | Select "string option"
  | Update patch int
  | Delete bool
  | Search string

fun step :: "Note json \<Rightarrow> action \<Rightarrow> world \<Rightarrow> world" where
  "step J (Add now idnow r36) w = handleAddNote J now idnow r36 w"
| "step J (Select i) w = selectNote i w"
| "step J (Update p now) w = updateSelectedNote J p now w"
| "step J (Delete ok) w = handleDelete J (\<lambda>msg. ok) w"
| "step J (Search v) w = searchInput v w"

fun run :: "Note json \<Rightarrow> world \<Rightarrow> action list \<Rightarrow> world" where
  "run J w [] = w"
| "run J w (a # as) = run J (step J a w) as"

subsection \<open>Notions of the specification\<close>


text \<open>The text of the prompt \<^verbatim>\<open>handleDelete\<close> shows for a note.\<close>

definition delete_prompt :: "Note \<Rightarrow> string" where
  "delete_prompt n =
     ''Delete '' @ [CHR 0x22] @ (if title n = [] then ''this note'' else title n)
       @ [CHR 0x22] @ ''? This cannot be undone.''"

text \<open>The invariants of the data model: ids are unique, and no note is updated before it is created.\<close>

definition inv_notes :: "Note list \<Rightarrow> bool" where
  "inv_notes ns \<longleftrightarrow> distinct (map id_n ns) \<and> list_all (\<lambda>n. createdAt n \<le> updatedAt n) ns"

text \<open>
  What an action needs from the environment for the invariants to survive it: an added
  note gets an id that no note of the collection has, and the clock of an update is
  not before the creation of the note it updates.
\<close>

fun env_ok :: "world \<Rightarrow> action \<Rightarrow> bool" where
  "env_ok w (Add now idnow r36) = (generateId idnow r36 \<notin> set (map id_n (notes (state w))))"
| "env_ok w (Update p now) =
     (case findIndex (is_selected (state w)) (notes (state w)) of
        None \<Rightarrow> True
      | Some idx \<Rightarrow> createdAt (notes (state w) ! idx) \<le> now)"
| "env_ok w (Select i) = True"
| "env_ok w (Delete ok) = True"
| "env_ok w (Search v) = True"

fun admissible :: "Note json \<Rightarrow> world \<Rightarrow> action list \<Rightarrow> bool" where
  "admissible J w [] = True"
| "admissible J w (a # as) = (env_ok w a \<and> admissible J (step J a w) as)"

subsection \<open>Example data\<close>

text \<open>
  A JSON engine known on finitely many collections: it prints a collection of the
  table as the text beside it and reads that text back; any other text is rejected.
\<close>

definition table_json :: "('a list \<times> string) list \<Rightarrow> 'a json" where
  "table_json tab =
     \<lparr>stringify = (\<lambda>xs. case map_of tab xs of Some t \<Rightarrow> t | None \<Rightarrow> ''null''),
      parse = (\<lambda>t. case map_of (map (\<lambda>(xs, t). (t, xs)) tab) t of
                      Some xs \<Rightarrow> Inr (ParsedArray xs)
                    | None \<Rightarrow> Inl SyntaxError)\<rparr>"

definition note_groceries :: Note where
  "note_groceries =
     \<lparr>id_n = ''a'', title = ''Groceries'', content = ''milk'', createdAt = 1, updatedAt = 5\<rparr>"

definition note_taxes :: Note where
  "note_taxes =
     \<lparr>id_n = ''b'', title = ''Taxes'', content = [], createdAt = 2, updatedAt = 9\<rparr>"

definition example_text :: string where
  \<open>example_text =
     ''[{"id":"a","title":"Groceries","content":"milk","createdAt":1,"updatedAt":5},''
     @ ''{"id":"b","title":"Taxes","content":"","createdAt":2,"updatedAt":9}]''\<close>

definition example_json :: "Note json" where
  "example_json = table_json [([note_groceries, note_taxes], example_text), ([], ''[]'')]"

text \<open>A state with both notes, the first one selected, and blanks in the search field.\<close>

definition example_state :: app_state where
  "example_state =
     \<lparr>notes = [note_groceries, note_taxes], selectedId = Some ''a'', query = ''  '',
      isEditingTitle = False\<rparr>"

text \<open>The world after a start on an empty storage.\<close>

definition fresh_world :: world where
  "fresh_world =
     \<lparr>state = \<lparr>notes = [], selectedId = None, query = [], isEditingTitle = False\<rparr>,
      store = Map.empty\<rparr>"

text \<open>The example state over an empty storage, and a state with a single, selected note.\<close>

definition example_world :: world where
  "example_world = \<lparr>state = example_state, store = Map.empty\<rparr>"

definition single_world :: world where
  "single_world =
     \<lparr>state = \<lparr>notes = [note_taxes], selectedId = Some ''b'', query = [], isEditingTitle = False\<rparr>,
      store = Map.empty\<rparr>"

text \<open>The storage holding the example collection, and the world a start on it gives.\<close>

definition example_storage :: storage where
  "example_storage = Map.empty(STORAGE_KEY \<mapsto> example_text)"

definition loaded_world :: world where
  "loaded_world =
     \<lparr>state = \<lparr>notes = [note_groceries, note_taxes], selectedId = Some ''a'', query = [],
                isEditingTitle = False\<rparr>,
      store = example_storage(SELECTED_KEY \<mapsto> ''a'')\<rparr>"

text \<open>
  A storage whose notes array holds the same note twice, a JSON engine that knows its
  text, and the world a start on it gives.
\<close>

definition duplicate_text :: string where
  \<open>duplicate_text =
     ''[{"id":"a","title":"Groceries","content":"milk","createdAt":1,"updatedAt":5},''
     @ ''{"id":"a","title":"Groceries","content":"milk","createdAt":1,"updatedAt":5}]''\<close>

definition duplicate_json :: "Note json" where
  "duplicate_json = table_json [([note_groceries, note_groceries], duplicate_text)]"

definition duplicate_storage :: storage where
  "duplicate_storage = Map.empty(STORAGE_KEY \<mapsto> duplicate_text)"

definition duplicate_world :: world where
  "duplicate_world =
     \<lparr>state = \<lparr>notes = [note_groceries, note_groceries], selectedId = Some ''a'',
                query = [], isEditingTitle = False\<rparr>,
      store = duplicate_storage(SELECTED_KEY \<mapsto> ''a'')\<rparr>"

text \<open>A patch as the listener of the title field builds it.\<close>

definition example_patch :: patch where
  "example_patch = \<lparr>p_title = Some ''Shopping'', p_content = None\<rparr>"

text \<open>
  Five actions on a fresh world: two notes are added, the older one is selected and
  renamed, a third note is added. The collection is then the third, the second and
  the first note (newest insertion first), updated at 4, 2 and 3.
\<close>

definition example_session :: "action list" where
  "example_session =
     [Add 1 1 ''0.aaaaaa'', Add 2 2 ''0.bbbbbb'', Select (Some ''1-aaaaaa''),
      Update example_patch 3, Add 4 4 ''0.cccccc'']"

text \<open>Two notes added within one millisecond with the same random draw.\<close>

definition colliding_session :: "action list" where
  "colliding_session = [Add 7 7 ''0.abcdef'', Add 7 7 ''0.abcdef'']"

text \<open>A note added at 7 and edited when the clock reads 6 (the clock was set back).\<close>

definition backwards_session :: "action list" where
  "backwards_session = [Add 7 7 ''0.abcdef'', Update example_patch 6]"

text \<open>A session in which the ids are new and the clock moves forward.\<close>

definition good_session :: "action list" where
  "good_session =
     [Add 20 20 ''0.abcdef'', Update example_patch 21, Select (Some ''b''), Delete True,
      Search ''x'']"

definition confirm_yes :: "string \<Rightarrow> bool" where
  "confirm_yes msg = True"

definition confirm_no :: "string \<Rightarrow> bool" where
  "confirm_no msg = False"

section \<open>The filter/sort engine\<close>














section \<open>The persistence adapter\<close>

text \<open>
  Claim C3. \<^verbatim>\<open>loadNotes\<close> never raises: on every storage it returns normally (\<open>Inr\<close>),
  with the empty sequence when the notes key is absent, when the stored text fails to
  parse as JSON, or when the parsed value is not an array, and with the parsed array
  otherwise.
\<close>

theorem loadNotes_never_raises:
  "loadNotes J s =
     Inr (case s STORAGE_KEY of
            None \<Rightarrow> []
          | Some raw \<Rightarrow>
              (case JSON_parse J raw of
                 Inl e \<Rightarrow> []
               | Inr ParsedOther \<Rightarrow> []
               | Inr (ParsedArray xs) \<Rightarrow> xs))"
  by (simp add: loadNotes_def loadNotes_try_def JSON_parse_def
           split: option.split sum.split parsed.split)

theorem loadNotes_never_raises_witness:
  "loadNotes example_json (Map.empty(STORAGE_KEY \<mapsto> example_text))
     = Inr [note_groceries, note_taxes]
   \<and> loadNotes example_json (Map.empty(STORAGE_KEY \<mapsto> ''{nonsense'')) = Inr []
   \<and> loadNotes example_json Map.empty = Inr []"
  using loadNotes_never_raises [of example_json "Map.empty(STORAGE_KEY \<mapsto> example_text)"]
    loadNotes_never_raises [of example_json "Map.empty(STORAGE_KEY \<mapsto> ''{nonsense'')"]
    loadNotes_never_raises [of example_json Map.empty]
  by (simp add: JSON_parse_def example_json_def table_json_def example_text_def)



section \<open>The note factory\<close>



section \<open>The action handlers\<close>

lemma findIndex_Some:
  "findIndex P xs = Some i \<Longrightarrow> i < length xs \<and> P (xs ! i) \<and> (\<forall>j<i. \<not> P (xs ! j))"
proof (induction xs arbitrary: i)
  case Nil
  then show ?case by simp
next
  case (Cons x xs)
  show ?case
  proof (cases "P x")
    case True
    with Cons.prems show ?thesis by simp
  next
    case False
    with Cons.prems obtain k where k: "findIndex P xs = Some k" and i: "i = Suc k"
      by auto
    from Cons.IH [OF k] False i show ?thesis
      by (auto simp: nth_Cons split: nat.splits)
  qed
qed

lemma findIndex_None: "findIndex P xs = None \<longleftrightarrow> (\<forall>x\<in>set xs. \<not> P x)"
  by (induction xs) auto

lemma splice_js_replace:
  "i < length xs \<Longrightarrow> splice_js i (Suc 0) [x] xs = xs[i := x]"
  by (simp add: splice_js_def upd_conv_take_nth_drop)

lemma splice_js_remove:
  "splice_js i (Suc 0) [] xs = take i xs @ drop (Suc i) xs"
  by (simp add: splice_js_def)

text \<open>
  Claim C8. For every state and every text of the search field, the search action
  changes the query and nothing else: the notes, the selected id and the remaining
  field of the state are as before, and the storage is as before, so neither the
  query nor anything else is written to it.
\<close>

theorem searchInput_query_only:
  "query (state (searchInput v w)) = v
   \<and> notes (state (searchInput v w)) = notes (state w)
   \<and> selectedId (state (searchInput v w)) = selectedId (state w)
   \<and> isEditingTitle (state (searchInput v w)) = isEditingTitle (state w)
   \<and> store (searchInput v w) = store w"
  by (simp add: searchInput_def renderLayout_def)

theorem searchInput_query_only_witness:
  "query (state (searchInput ''tax'' fresh_world)) = ''tax''
   \<and> notes (state (searchInput ''tax'' fresh_world)) = []
   \<and> store (searchInput ''tax'' fresh_world) = Map.empty"
  using searchInput_query_only [of "''tax''" fresh_world]
  by (simp add: fresh_world_def)

lemma keys_differ: "STORAGE_KEY \<noteq> SELECTED_KEY"
  by (simp add: STORAGE_KEY_def SELECTED_KEY_def)

text \<open>
  Claim C7. Delete leaves the whole world (the notes, the selected id, the rest of the
  state, and the storage) unchanged in two cases: when no note of the collection has
  the selected id, and when the user answers no to the prompt, which names the title
  of the note or "this note".
\<close>

theorem handleDelete_noop:
  "((\<forall>n\<in>set (notes (state w)). \<not> is_selected (state w) n) \<longrightarrow> handleDelete J confirm w = w)
   \<and> (\<forall>idx. findIndex (is_selected (state w)) (notes (state w)) = Some idx
            \<and> \<not> confirm (delete_prompt (notes (state w) ! idx))
          \<longrightarrow> handleDelete J confirm w = w)"
proof (intro conjI impI allI)
  assume "\<forall>n\<in>set (notes (state w)). \<not> is_selected (state w) n"
  then have "findIndex (is_selected (state w)) (notes (state w)) = None"
    by (simp add: findIndex_None)
  then show "handleDelete J confirm w = w"
    by (simp add: handleDelete_def)
next
  fix idx
  assume "findIndex (is_selected (state w)) (notes (state w)) = Some idx
            \<and> \<not> confirm (delete_prompt (notes (state w) ! idx))"
  then show "handleDelete J confirm w = w"
    by (simp add: handleDelete_def delete_prompt_def Let_def)
qed

theorem handleDelete_noop_witness:
  "findIndex (is_selected (state example_world)) (notes (state example_world)) = Some 0
   \<and> \<not> confirm_no (delete_prompt (notes (state example_world) ! 0))
   \<and> handleDelete example_json confirm_no example_world = example_world
   \<and> notes (state fresh_world) = []
   \<and> handleDelete example_json confirm_yes fresh_world = fresh_world"
proof -
  have a: "findIndex (is_selected (state example_world)) (notes (state example_world)) = Some 0"
    by (simp add: example_world_def example_state_def is_selected_def note_groceries_def)
  have b: "\<not> confirm_no (delete_prompt (notes (state example_world) ! 0))"
    by (simp add: confirm_no_def)
  have c: "\<forall>n\<in>set (notes (state fresh_world)). \<not> is_selected (state fresh_world) n"
    by (simp add: fresh_world_def)
  have d: "notes (state fresh_world) = []"
    by (simp add: fresh_world_def)
  show ?thesis
    using a b c d handleDelete_noop [of example_world example_json confirm_no]
      handleDelete_noop [of fresh_world example_json confirm_yes]
    by simp
qed

text \<open>
  Claim C2, as the spec states it, fails: after a confirmed Delete the code selects
  the first note of the array, which need not be the first note in the order of
  \<open>updatedAt\<close>. After the five actions of \<open>example_session\<close> the third note is selected;
  deleting it selects the second note (updated at 2), while the first note (updated
  at 3) heads the sorted list.
\<close>

theorem handleDelete_confirmed_counterexample:
  "selectedId (state (run example_json fresh_world example_session)) = Some ''4-cccccc''
   \<and> selectedId (state (handleDelete example_json confirm_yes
         (run example_json fresh_world example_session))) = Some ''2-bbbbbb''
   \<and> map id_n (getFilteredNotes (state (handleDelete example_json confirm_yes
         (run example_json fresh_world example_session)))) = [''1-aaaaaa'', ''2-bbbbbb'']
   \<and> selectedId (state (handleDelete example_json confirm_yes
         (run example_json fresh_world example_session)))
       \<noteq> Some (id_n (hd (getFilteredNotes (state (handleDelete example_json confirm_yes
             (run example_json fresh_world example_session))))))"
  by code_simp

text \<open>
  Claim C2, amended. After a confirmed Delete, when a note of the collection has the
  selected id, the first such note is removed; the first note of the remaining
  collection in stored array order becomes selected if any note remains, and
  otherwise the selection is cleared; the remaining collection and the new selected
  id (the empty string for none) are written to the storage. In particular, deleting
  the only note leaves the collection empty and the selection absent.
\<close>

theorem handleDelete_confirmed:
  assumes "findIndex (is_selected (state w)) (notes (state w)) = Some idx"
      and "confirm (delete_prompt (notes (state w) ! idx))"
  shows "let w' = handleDelete J confirm w
         in notes (state w') = take idx (notes (state w)) @ drop (Suc idx) (notes (state w))
          \<and> selectedId (state w') = (case notes (state w') of [] \<Rightarrow> None | n # _ \<Rightarrow> Some (id_n n))
          \<and> store w' STORAGE_KEY = Some (JSON_stringify J (notes (state w')))
          \<and> store w' SELECTED_KEY = Some (case selectedId (state w') of None \<Rightarrow> [] | Some i \<Rightarrow> i)
          \<and> (length (notes (state w)) = 1 \<longrightarrow> notes (state w') = [] \<and> selectedId (state w') = None)"
proof -
  let ?ns = "take idx (notes (state w)) @ drop (Suc idx) (notes (state w))"
  let ?i = "case ?ns of [] \<Rightarrow> None | n # _ \<Rightarrow> Some (id_n n)"
  have w': "handleDelete J confirm w =
          \<lparr>state = (state w)\<lparr>notes := ?ns, selectedId := ?i\<rparr>,
           store = saveSelectedId ?i (saveNotes J ?ns (store w))\<rparr>"
    using assms
    by (simp add: handleDelete_def delete_prompt_def Let_def splice_js_remove renderLayout_def)
  have one: "length (notes (state w)) = 1 \<longrightarrow> ?ns = []"
    using findIndex_Some [OF assms(1)] by auto
  show ?thesis
    unfolding Let_def w' using one keys_differ
    by (auto simp: saveSelectedId_def saveNotes_def split: list.splits)
qed

theorem handleDelete_confirmed_witness:
  "findIndex (is_selected (state example_world)) (notes (state example_world)) = Some 0
   \<and> confirm_yes (delete_prompt (notes (state example_world) ! 0))
   \<and> notes (state (handleDelete example_json confirm_yes example_world)) = [note_taxes]
   \<and> selectedId (state (handleDelete example_json confirm_yes example_world)) = Some ''b''
   \<and> store (handleDelete example_json confirm_yes example_world) SELECTED_KEY = Some ''b''
   \<and> findIndex (is_selected (state single_world)) (notes (state single_world)) = Some 0
   \<and> length (notes (state single_world)) = 1
   \<and> notes (state (handleDelete example_json confirm_yes single_world)) = []
   \<and> selectedId (state (handleDelete example_json confirm_yes single_world)) = None
   \<and> store (handleDelete example_json confirm_yes single_world) SELECTED_KEY = Some []"
proof -
  have a: "findIndex (is_selected (state example_world)) (notes (state example_world)) = Some 0"
    by (simp add: example_world_def example_state_def is_selected_def note_groceries_def)
  have b: "confirm_yes (delete_prompt (notes (state example_world) ! 0))"
    by (simp add: confirm_yes_def)
  have c: "findIndex (is_selected (state single_world)) (notes (state single_world)) = Some 0"
    by (simp add: single_world_def is_selected_def note_taxes_def)
  have d: "confirm_yes (delete_prompt (notes (state single_world) ! 0))"
    by (simp add: confirm_yes_def)
  have e: "notes (state example_world) = [note_groceries, note_taxes]"
    by (simp add: example_world_def example_state_def)
  have f: "notes (state single_world) = [note_taxes]"
    by (simp add: single_world_def)
  show ?thesis
    using a b c d
      handleDelete_confirmed [where w = example_world and idx = 0 and confirm = confirm_yes
        and J = example_json, OF a b]
      handleDelete_confirmed [where w = single_world and idx = 0 and confirm = confirm_yes
        and J = example_json, OF c d]
    by (simp add: Let_def e f note_taxes_def)
qed

text \<open>
  Claim C6, as the spec states it, fails in one part: the code sets \<open>updatedAt\<close> to
  the clock reading whatever the note held before, so \<open>updatedAt\<close> decreases when the
  clock reads less than the stored value. The selected note of \<open>example_world\<close> was
  updated at 5; an update when the clock reads 3 leaves it at 3.
\<close>

theorem updateSelectedNote_merges_counterexample:
  "updatedAt (notes (state example_world) ! 0) = 5
   \<and> updatedAt (notes (state (updateSelectedNote example_json example_patch 3 example_world)) ! 0) = 3
   \<and> updatedAt (notes (state (updateSelectedNote example_json example_patch 3 example_world)) ! 0)
       < updatedAt (notes (state example_world) ! 0)"
  by code_simp

text \<open>
  Claim C6, amended. When a note of the collection has the selected id, Update with a
  patch of a title and/or a content changes the first such note only: its title and
  content are those of the patch where the patch has them and the old ones elsewhere,
  its \<open>updatedAt\<close> is the clock reading, its id and \<open>createdAt\<close> are kept, and
  \<open>updatedAt\<close> does not decrease provided the clock reading is not earlier than the
  old \<open>updatedAt\<close>. The collection keeps its length and every other note.
\<close>

theorem updateSelectedNote_merges:
  assumes "findIndex (is_selected (state w)) (notes (state w)) = Some idx"
  shows "let ns = notes (state w);
             ns' = notes (state (updateSelectedNote J p now w));
             old = ns ! idx;
             new = ns' ! idx
         in idx < length ns \<and> is_selected (state w) old
          \<and> length ns' = length ns
          \<and> title new = (case p_title p of None \<Rightarrow> title old | Some v \<Rightarrow> v)
          \<and> content new = (case p_content p of None \<Rightarrow> content old | Some v \<Rightarrow> v)
          \<and> updatedAt new = now
          \<and> id_n new = id_n old
          \<and> createdAt new = createdAt old
          \<and> (updatedAt old \<le> now \<longrightarrow> updatedAt old \<le> updatedAt new)
          \<and> (\<forall>j<length ns. j \<noteq> idx \<longrightarrow> ns' ! j = ns ! j)"
proof -
  from findIndex_Some [OF assms]
  have lt: "idx < length (notes (state w))" and sel: "is_selected (state w) (notes (state w) ! idx)"
    by simp_all
  have ns': "notes (state (updateSelectedNote J p now w))
               = (notes (state w))[idx := merge_patch (notes (state w) ! idx) p now]"
    using assms lt
    by (simp add: updateSelectedNote_def Let_def splice_js_replace renderLayout_def)
  show ?thesis
    unfolding Let_def ns' using lt sel
    by (simp add: merge_patch_def)
qed

theorem updateSelectedNote_merges_witness:
  "findIndex (is_selected (state example_world)) (notes (state example_world)) = Some 0
   \<and> updatedAt (notes (state example_world) ! 0) \<le> 20
   \<and> title (notes (state (updateSelectedNote example_json example_patch 20 example_world)) ! 0)
       = ''Shopping''
   \<and> content (notes (state (updateSelectedNote example_json example_patch 20 example_world)) ! 0)
       = ''milk''
   \<and> updatedAt (notes (state (updateSelectedNote example_json example_patch 20 example_world)) ! 0)
       = 20
   \<and> notes (state (updateSelectedNote example_json example_patch 20 example_world)) ! 1
       = note_taxes"
proof -
  have a: "findIndex (is_selected (state example_world)) (notes (state example_world)) = Some 0"
    by (simp add: example_world_def example_state_def is_selected_def note_groceries_def)
  have e: "notes (state example_world) = [note_groceries, note_taxes]"
    by (simp add: example_world_def example_state_def)
  show ?thesis
    using a updateSelectedNote_merges [OF a, of example_json example_patch 20]
    by (simp add: Let_def e note_groceries_def example_patch_def)
qed

section \<open>Module initialisation\<close>

text \<open>
  Claim C10. At startup, if the storage holds no selected id (the key is absent or
  its value is empty), the state takes the loaded notes, and: if they are not empty,
  the first note of the stored array is selected and its id is written to the
  storage at once; if they are empty, the selection stays absent and nothing is
  written.
\<close>

theorem startup_selects_first:
  assumes "s SELECTED_KEY = None \<or> s SELECTED_KEY = Some []"
      and "loadNotes J s = Inr ns"
  shows "\<exists>w. startup J s = Inr w \<and> notes (state w) = ns
           \<and> (case ns of
                 [] \<Rightarrow> selectedId (state w) = None \<and> store w = s
               | n # _ \<Rightarrow> selectedId (state w) = Some (id_n n)
                          \<and> store w = s(SELECTED_KEY \<mapsto> id_n n))"
proof -
  from assms(1) have "loadSelectedId s = None"
    by (auto simp: loadSelectedId_def)
  with assms(2) show ?thesis
    by (cases ns) (simp_all add: startup_def Let_def falsy_def renderLayout_def saveSelectedId_def)
qed

theorem startup_selects_first_witness:
  "startup example_json (Map.empty(STORAGE_KEY \<mapsto> example_text)) =
     Inr \<lparr>state = \<lparr>notes = [note_groceries, note_taxes], selectedId = Some ''a'', query = [],
                    isEditingTitle = False\<rparr>,
          store = (Map.empty(STORAGE_KEY \<mapsto> example_text))(SELECTED_KEY \<mapsto> ''a'')\<rparr>
   \<and> startup example_json Map.empty = Inr fresh_world"
proof -
  have k: "(Map.empty(STORAGE_KEY \<mapsto> example_text)) SELECTED_KEY = None"
    using keys_differ by simp
  have l: "loadNotes example_json (Map.empty(STORAGE_KEY \<mapsto> example_text))
             = Inr [note_groceries, note_taxes]"
    by (simp add: loadNotes_def loadNotes_try_def JSON_parse_def example_json_def
          table_json_def example_text_def)
  have l0: "loadNotes example_json Map.empty = Inr []"
    by (simp add: loadNotes_def loadNotes_try_def)
  from startup_selects_first [of "Map.empty(STORAGE_KEY \<mapsto> example_text)" example_json, OF _ l] k
  have one: "\<exists>w. startup example_json (Map.empty(STORAGE_KEY \<mapsto> example_text)) = Inr w
      \<and> notes (state w) = [note_groceries, note_taxes]
      \<and> selectedId (state w) = Some ''a''
      \<and> store w = (Map.empty(STORAGE_KEY \<mapsto> example_text))(SELECTED_KEY \<mapsto> ''a'')"
    by (simp add: note_groceries_def)
  from startup_selects_first [of Map.empty example_json, OF _ l0]
  have two: "\<exists>w. startup example_json Map.empty = Inr w \<and> notes (state w) = []
      \<and> selectedId (state w) = None \<and> store w = Map.empty"
    by simp
  show ?thesis
    using one two
    by (auto simp: startup_def l l0 Let_def loadSelectedId_def k falsy_def renderLayout_def
          saveSelectedId_def fresh_world_def note_groceries_def)
qed

section \<open>The invariants of the collection\<close>

lemma inv_notes_Cons:
  "inv_notes (n # ns) \<longleftrightarrow>
     id_n n \<notin> set (map id_n ns) \<and> createdAt n \<le> updatedAt n \<and> inv_notes ns"
  by (auto simp: inv_notes_def)

lemma inv_notes_update:
  assumes "inv_notes ns" and "i < length ns" and "id_n x = id_n (ns ! i)"
      and "createdAt x \<le> updatedAt x"
  shows "inv_notes (ns[i := x])"
proof -
  have "map id_n (ns[i := x]) = (map id_n ns)[i := id_n (ns ! i)]"
    using assms(3) by (simp add: map_update)
  also have "\<dots> = map id_n ns"
    using assms(2) by (metis list_update_id nth_map)
  finally have ids: "map id_n (ns[i := x]) = map id_n ns" .
  have "\<forall>n\<in>set (ns[i := x]). createdAt n \<le> updatedAt n"
  proof
    fix n assume "n \<in> set (ns[i := x])"
    then have "n = x \<or> n \<in> set ns"
      using set_update_subset_insert [of ns i x] by auto
    with assms(1,4) show "createdAt n \<le> updatedAt n"
      by (auto simp: inv_notes_def list_all_iff)
  qed
  with ids assms(1) show ?thesis
    by (simp add: inv_notes_def list_all_iff)
qed

lemma inv_notes_remove:
  assumes "inv_notes ns"
  shows "inv_notes (take i ns @ drop (Suc i) ns)"
proof -
  have d: "distinct (map id_n ns)" and a: "\<forall>n\<in>set ns. createdAt n \<le> updatedAt n"
    using assms by (simp_all add: inv_notes_def list_all_iff)
  have "distinct (take i (map id_n ns) @ drop (Suc i) (map id_n ns))"
    using d by (simp add: set_take_disj_set_drop_if_distinct)
  then have "distinct (map id_n (take i ns @ drop (Suc i) ns))"
    by (simp add: take_map drop_map)
  moreover have "\<forall>n\<in>set (take i ns @ drop (Suc i) ns). createdAt n \<le> updatedAt n"
    using a by (auto dest: in_set_takeD in_set_dropD)
  ultimately show ?thesis
    by (simp add: inv_notes_def list_all_iff)
qed

lemma step_preserves_inv:
  assumes "inv_notes (notes (state w))" and "env_ok w a"
  shows "inv_notes (notes (state (step J a w)))"
proof (cases a)
  case (Add now idnow r36)
  with assms show ?thesis
    by (simp add: handleAddNote_def Let_def renderLayout_def inv_notes_Cons createNote_def)
next
  case (Select i)
  with assms show ?thesis
    by (simp add: selectNote_def renderLayout_def)
next
  case (Update p now)
  show ?thesis
  proof (cases "findIndex (is_selected (state w)) (notes (state w))")
    case None
    with Update assms show ?thesis
      by (simp add: updateSelectedNote_def)
  next
    case (Some idx)
    from findIndex_Some [OF Some] have lt: "idx < length (notes (state w))"
      by simp
    from assms(2) Update Some have c: "createdAt (notes (state w) ! idx) \<le> now"
      by simp
    have "inv_notes ((notes (state w))[idx := merge_patch (notes (state w) ! idx) p now])"
      using assms(1) lt c by (intro inv_notes_update) (simp_all add: merge_patch_def)
    with Update Some lt show ?thesis
      by (simp add: updateSelectedNote_def Let_def splice_js_replace renderLayout_def)
  qed
next
  case (Delete ok)
  show ?thesis
  proof (cases "findIndex (is_selected (state w)) (notes (state w))")
    case None
    with Delete assms show ?thesis
      by (simp add: handleDelete_def)
  next
    case (Some idx)
    with Delete assms(1) inv_notes_remove [OF assms(1), of idx] show ?thesis
      by (simp add: handleDelete_def Let_def splice_js_remove renderLayout_def)
  qed
next
  case (Search v)
  with assms show ?thesis
    by (simp add: searchInput_def renderLayout_def)
qed

lemma run_preserves_inv:
  "inv_notes (notes (state w)) \<Longrightarrow> admissible J w acts \<Longrightarrow>
   inv_notes (notes (state (run J w acts)))"
proof (induction acts arbitrary: w)
  case Nil
  then show ?case by simp
next
  case (Cons a acts)
  from Cons.prems have "inv_notes (notes (state (step J a w)))"
    by (simp add: step_preserves_inv)
  with Cons.IH Cons.prems show ?case by simp
qed

lemma startup_notes:
  "startup J s = Inr w \<Longrightarrow> loadNotes J s = Inr ns \<Longrightarrow> notes (state w) = ns"
  by (auto simp: startup_def Let_def renderLayout_def split: list.splits if_splits)

text \<open>
  Claim C9, as the spec states it, fails: nothing in the code checks an id against the
  collection, a clock reading against \<open>createdAt\<close>, or the array it loads. From the
  fresh world, two notes added in the same millisecond with the same random draw get
  the same id, and a note added at 7 and edited when the clock reads 6 has
  \<open>updatedAt < createdAt\<close>; and a start on a storage whose array holds a note twice
  gives a state with that array.
\<close>

theorem invariants_preserved_counterexample:
  "startup example_json Map.empty = Inr fresh_world
   \<and> map id_n (notes (state (run example_json fresh_world colliding_session)))
       = [''7-abcdef'', ''7-abcdef'']
   \<and> \<not> inv_notes (notes (state (run example_json fresh_world colliding_session)))
   \<and> map createdAt (notes (state (run example_json fresh_world backwards_session))) = [7]
   \<and> map updatedAt (notes (state (run example_json fresh_world backwards_session))) = [6]
   \<and> \<not> inv_notes (notes (state (run example_json fresh_world backwards_session)))
   \<and> startup duplicate_json duplicate_storage = Inr duplicate_world
   \<and> \<not> inv_notes (notes (state duplicate_world))"
proof -
  have "startup example_json Map.empty = Inr fresh_world"
    by (simp add: startup_def loadNotes_def loadNotes_try_def loadSelectedId_def
          renderLayout_def fresh_world_def)
  moreover have
    "map id_n (notes (state (run example_json fresh_world colliding_session)))
       = [''7-abcdef'', ''7-abcdef'']
     \<and> \<not> inv_notes (notes (state (run example_json fresh_world colliding_session)))
     \<and> map createdAt (notes (state (run example_json fresh_world backwards_session))) = [7]
     \<and> map updatedAt (notes (state (run example_json fresh_world backwards_session))) = [6]
     \<and> \<not> inv_notes (notes (state (run example_json fresh_world backwards_session)))"
    by code_simp
  moreover have "startup duplicate_json duplicate_storage = Inr duplicate_world"
  proof -
    have l: "loadNotes duplicate_json duplicate_storage = Inr [note_groceries, note_groceries]"
      by (simp add: loadNotes_def loadNotes_try_def JSON_parse_def duplicate_json_def
            table_json_def duplicate_text_def duplicate_storage_def)
    have k: "duplicate_storage SELECTED_KEY = None"
      using keys_differ by (simp add: duplicate_storage_def)
    show ?thesis
      by (simp add: startup_def l Let_def loadSelectedId_def k falsy_def renderLayout_def
            saveSelectedId_def duplicate_world_def note_groceries_def)
  qed
  moreover have "\<not> inv_notes (notes (state duplicate_world))"
    by (simp add: duplicate_world_def inv_notes_def)
  ultimately show ?thesis by simp
qed

text \<open>
  Claim C9, amended. If the collection loaded at startup has pairwise distinct ids
  and \<open>createdAt \<le> updatedAt\<close> for every note, then so has the collection after any
  sequence of Add, Select, Update, Delete and Search actions in which every Add
  generates an id that no note of the collection has at that moment and every Update
  reads a clock that is not earlier than the \<open>createdAt\<close> of the note it updates.
\<close>

theorem invariants_preserved:
  assumes "startup J s = Inr w0" and "loadNotes J s = Inr ns" and "inv_notes ns"
      and "admissible J w0 acts"
  shows "inv_notes (notes (state (run J w0 acts)))"
proof -
  from assms(1,2) have "notes (state w0) = ns"
    by (rule startup_notes)
  with assms(3,4) show ?thesis
    by (simp add: run_preserves_inv)
qed

theorem invariants_preserved_witness:
  "startup example_json example_storage = Inr loaded_world
   \<and> loadNotes example_json example_storage = Inr [note_groceries, note_taxes]
   \<and> inv_notes [note_groceries, note_taxes]
   \<and> admissible example_json loaded_world good_session
   \<and> inv_notes (notes (state (run example_json loaded_world good_session)))"
proof -
  have l: "loadNotes example_json example_storage = Inr [note_groceries, note_taxes]"
    by (simp add: loadNotes_def loadNotes_try_def JSON_parse_def example_json_def
          table_json_def example_text_def example_storage_def)
  have k: "example_storage SELECTED_KEY = None"
    using keys_differ by (simp add: example_storage_def)
  have s: "startup example_json example_storage = Inr loaded_world"
    by (simp add: startup_def l Let_def loadSelectedId_def k falsy_def renderLayout_def
          saveSelectedId_def loaded_world_def note_groceries_def)
  have i: "inv_notes [note_groceries, note_taxes]"
    by code_simp
  have a: "admissible example_json loaded_world good_session"
    by code_simp
  show ?thesis
    using s l i a invariants_preserved [OF s l i a] by simp
qed

end
